theory Spec2Isabelle
  imports Main
begin

section \<open>Python built-ins used by the sources\<close>

text \<open>
  Python integers are unbounded, so coordinates, sizes and seconds are \<^typ>\<open>int\<close>.
  On \<^typ>\<open>int\<close> the HOL operators \<open>div\<close> and \<open>mod\<close> round towards minus infinity and take
  the sign of the divisor, which is what Python's \<open>//\<close> and \<open>%\<close> do.
\<close>

definition py_prefix :: "int \<Rightarrow> 'a list \<Rightarrow> 'a list" where
  \<comment> \<open>the slice \<open>xs[:n]\<close>; a negative \<open>n\<close> counts from the end\<close>
  "py_prefix n xs =
     (if 0 \<le> n then take (nat n) xs else take (length xs - nat (- n)) xs)"

definition py_repeat :: "'a list \<Rightarrow> int \<Rightarrow> 'a list" where
  \<comment> \<open>the product \<open>xs * n\<close>; empty when \<open>n\<close> is zero or negative\<close>
  "py_repeat xs n = concat (replicate (nat n) xs)"

definition py_range :: "int \<Rightarrow> int \<Rightarrow> int list" where
  \<comment> \<open>\<open>range(a, b)\<close>\<close>
  "py_range a b = [a..b - 1]"

definition digit_char :: "nat \<Rightarrow> char" where
  "digit_char d = ''0123456789'' ! d"

function str_nat :: "nat \<Rightarrow> string" where
  "str_nat n = (if n < 10 then [digit_char n] else str_nat (n div 10) @ [digit_char (n mod 10)])"
  by pat_completeness auto
termination
  by (relation "measure (\<lambda>n. n)") auto

declare str_nat.simps [simp del]

definition str_int :: "int \<Rightarrow> string" where
  \<comment> \<open>\<open>str(i)\<close>, also what \<open>f"{i}"\<close> prints\<close>
  "str_int i = (if i < 0 then CHR ''-'' # str_nat (nat (- i)) else str_nat (nat i))"

definition fmt_02d :: "int \<Rightarrow> string" where
  \<comment> \<open>\<open>f"{i:02d}"\<close>: zeros are put after the sign until the text is two characters wide\<close>
  "fmt_02d i = (if 0 \<le> i \<and> i < 10 then CHR ''0'' # str_int i else str_int i)"

section \<open>Geometry and the drawing surface (ui/core.py)\<close>

datatype Vector2D = Vector2D (vy: int) (vx: int)

datatype Rect = Rect (rect_offset: Vector2D) (rect_size: Vector2D)

definition from_dimensions :: "int \<Rightarrow> int \<Rightarrow> int \<Rightarrow> int \<Rightarrow> Rect" where
  "from_dimensions y x height width = Rect (Vector2D y x) (Vector2D height width)"

datatype error = BoundsError | InvalidArgument

text \<open>
  Modelled from the spec: \<open>spnoiser.utils.require\<close> is imported by both UI modules but its
  module is not among the sources. Following section 7 of the specification, a violated
  requirement is a failure of the kind the caller names (\<open>BoundsError\<close> for local
  coordinates out of range, \<open>InvalidArgument\<close> for a non-positive remaining time); a
  requirement that holds has no effect. \<open>None\<close> is the normal return.
\<close>

definition require :: "bool \<Rightarrow> error \<Rightarrow> error option" where
  "require cond err = (if cond then None else Some err)"

text \<open>
  The curses window is modelled by the sequence of calls made on it. A call of \<open>addstr\<close>
  that the backend refuses raises \<open>curses.error\<close>, which \<open>_draw_str\<close> catches; no caller
  in the repository passes \<open>on_curses_error\<close>, so the control flow is the same whether
  the backend accepts the call or not, and the call is recorded in both cases.
\<close>

datatype scr_call = AddStr int int string | Erase | Refresh | Beep

type_synonym surface = "scr_call list"

text \<open>
  A method that returns nothing is a function from the surface to the exception it raised,
  if any, and the surface as it is at that moment.
\<close>

type_synonym draw = "surface \<Rightarrow> error option \<times> surface"

definition ok :: draw where
  "ok s = (None, s)"

definition seq :: "draw \<Rightarrow> draw \<Rightarrow> draw" where
  \<comment> \<open>two statements in sequence: an exception of the first skips the second\<close>
  "seq a b s = (case a s of (None, s') \<Rightarrow> b s' | (Some e, s') \<Rightarrow> (Some e, s'))"

fun for_each :: "'a list \<Rightarrow> ('a \<Rightarrow> draw) \<Rightarrow> draw" where
  "for_each [] body s = ok s"
| "for_each (i # rest) body s = seq (body i) (for_each rest body) s"

definition swallow :: "draw \<Rightarrow> draw" where
  \<comment> \<open>\<open>try: ... except Exception: pass\<close>; what was written before the exception stays\<close>
  "swallow a s = (None, snd (a s))"

definition abs_coords :: "Rect \<Rightarrow> int \<Rightarrow> int \<Rightarrow> error + Vector2D" where
  "abs_coords area y x =
     (let off_y = vy (rect_offset area); off_x = vx (rect_offset area);
          len_y = vy (rect_size area); len_x = vx (rect_size area)
      in case require (0 \<le> y \<and> y < len_y) BoundsError of
           Some e \<Rightarrow> Inl e
         | None \<Rightarrow>
             (case require (0 \<le> x \<and> x < len_x) BoundsError of
                Some e \<Rightarrow> Inl e
              | None \<Rightarrow> Inr (Vector2D (off_y + y) (off_x + x))))"

definition draw_str :: "Rect \<Rightarrow> int \<Rightarrow> int \<Rightarrow> string \<Rightarrow> draw" where
  "draw_str area y x string s =
     (let width = vx (rect_size area)
      in case abs_coords area y x of
           Inl e \<Rightarrow> (Some e, s)
         | Inr p \<Rightarrow> (None, s @ [AddStr (vy p) (vx p) (py_prefix width string)]))"

definition inner_area :: "Rect \<Rightarrow> Rect \<Rightarrow> Rect" where
  "inner_area self_area area =
     Rect (Vector2D (vy (rect_offset self_area) + vy (rect_offset area))
                    (vx (rect_offset self_area) + vx (rect_offset area)))
          (Vector2D (min (vy (rect_size self_area)) (vy (rect_size area)))
                    (min (vx (rect_size self_area)) (vx (rect_size area))))"

text \<open>
  \<open>_draw_sub_in\<close> builds the child with the factory and calls the child's \<open>draw\<close>. The
  factory may raise (the constructor of \<open>RemainingTime\<close> does); \<open>draw_of\<close> is the \<open>draw\<close>
  method that Python finds by dynamic dispatch on the child.
\<close>

definition draw_sub_in ::
  "Rect \<Rightarrow> (Rect \<Rightarrow> error + 'e) \<Rightarrow> ('e \<Rightarrow> draw) \<Rightarrow> Rect option \<Rightarrow> draw" where
  "draw_sub_in self_area sub_elemnt_factory draw_of relative_area s =
     (let target_area =
            (case relative_area of None \<Rightarrow> self_area | Some r \<Rightarrow> inner_area self_area r)
      in case sub_elemnt_factory target_area of
           Inl e \<Rightarrow> (Some e, s)
         | Inr sub_elemnt \<Rightarrow> draw_of sub_elemnt s)"

definition draw_sub :: "Rect \<Rightarrow> (Rect \<Rightarrow> error + 'e) \<Rightarrow> ('e \<Rightarrow> draw) \<Rightarrow> draw" where
  "draw_sub self_area sub_elemnt_factory draw_of =
     draw_sub_in self_area sub_elemnt_factory draw_of None"

section \<open>The concrete elements (ui/components.py)\<close>

text \<open>
  Each class is a type holding the fields its constructor stores; \<open>ScreenElement\<close>, the
  abstract base, is their sum, and \<open>draw\<close> on it dispatches on the class.
\<close>

subsection \<open>BorderBox\<close>

datatype BorderBox = BorderBox (bb_area: Rect) (bb_content: "Rect \<Rightarrow> draw")

definition horizon_border :: "int \<Rightarrow> string" where
  "horizon_border width =
     (if 2 \<le> width then ''+'' @ py_repeat ''-'' (max 0 (width - 2)) @ ''+'' else ''+'')"

definition BorderBox_body :: "BorderBox \<Rightarrow> draw" where
  \<comment> \<open>the statements inside the \<open>try\<close> of \<open>BorderBox.draw\<close>\<close>
  "BorderBox_body self =
     (let area = bb_area self;
          height = vy (rect_size area); width = vx (rect_size area);
          inner_height = height - 2; inner_width = width - 2
      in seq (draw_str area 0 0 (horizon_border width))
        (seq (for_each (py_range 1 (height - 1))
                (\<lambda>y. seq (draw_str area y 0 ''|'') (draw_str area y (width - 1) ''|'')))
        (seq (draw_str area (height - 1) 0 (horizon_border width))
             (if 0 < inner_height \<and> 0 < inner_width
              then bb_content self
                     (inner_area area (from_dimensions 1 1 inner_height inner_width))
              else ok))))"

definition BorderBox_draw :: "BorderBox \<Rightarrow> draw" where
  "BorderBox_draw self = swallow (BorderBox_body self)"

subsection \<open>Noising\<close>

datatype Noising = NoisingExpanded Rect string | NoisingCompressed Rect string

fun nz_area :: "Noising \<Rightarrow> Rect" where
  "nz_area (NoisingExpanded area noise) = area"
| "nz_area (NoisingCompressed area noise) = area"

fun token :: "Noising \<Rightarrow> string" where
  "token (NoisingExpanded area noise) = ''    '' @ noise"
| "token (NoisingCompressed area noise) = noise @ '' ''"

definition NoisingExpanded_token_exceeds_width :: int where
  "NoisingExpanded_token_exceeds_width = 4"

definition NoisingCompressed_token_exceeds_width :: int where
  "NoisingCompressed_token_exceeds_width = 1"

definition noising_line :: "string \<Rightarrow> int \<Rightarrow> string" where
  \<comment> \<open>the line that \<open>Noising.draw\<close> builds from the token and the width\<close>
  "noising_line tok width =
     (let len_token = int (length tok)
      in if len_token = 0 then py_repeat '' '' width
         else
           (let ratio = width div len_token;
                repeats = (if width mod len_token = 0 then ratio else ratio + 1);
                line_repeated = py_repeat tok repeats
            in if width mod len_token = 0 then line_repeated
               else py_prefix width line_repeated))"

definition Noising_draw :: "Noising \<Rightarrow> draw" where
  "Noising_draw self =
     (let area = nz_area self;
          height = vy (rect_size area); width = vx (rect_size area);
          line = noising_line (token self) width
      in for_each (py_range 0 height) (\<lambda>y. draw_str area y 0 line))"

subsection \<open>RemainingTime\<close>

datatype RemainingTime = RemainingTime (rt_area: Rect) (rt_rem_sec: int)

definition RemainingTime_init :: "Rect \<Rightarrow> int \<Rightarrow> error + RemainingTime" where
  "RemainingTime_init area remaining_seconds =
     (case require (0 < remaining_seconds) InvalidArgument of
        Some e \<Rightarrow> Inl e
      | None \<Rightarrow> Inr (RemainingTime area remaining_seconds))"

definition SECONDS_DAY :: int where "SECONDS_DAY = 86400"
definition SECONDS_HOUR :: int where "SECONDS_HOUR = 3600"
definition SECONDS_MINUTE :: int where "SECONDS_MINUTE = 60"

definition format_time :: "int \<Rightarrow> string" where
  "format_time seconds =
     (if SECONDS_DAY < seconds then
        (let days = seconds div SECONDS_DAY;
             rest = seconds mod SECONDS_DAY;
             hh = rest div SECONDS_HOUR;
             mm = (rest mod SECONDS_HOUR) div SECONDS_MINUTE
         in str_int days @ '' days and '' @ fmt_02d hh @ '':'' @ fmt_02d mm)
      else if 60 < seconds then
        (let hh = seconds div SECONDS_HOUR;
             mm = (seconds mod SECONDS_HOUR) div SECONDS_MINUTE
         in fmt_02d hh @ '':'' @ fmt_02d mm)
      else str_int seconds @ ''s'')"

definition RemainingTime_draw :: "RemainingTime \<Rightarrow> draw" where
  "RemainingTime_draw self =
     (let rem_text = ''Noising time remaining: '' @ format_time (rt_rem_sec self);
          height = vy (rect_size (rt_area self))
      in draw_str (rt_area self) (height - 2) 0 rem_text)"

subsection \<open>ExitHint\<close>

datatype ExitHint = ExitHint (eh_area: Rect)

definition ExitHint_draw :: "ExitHint \<Rightarrow> draw" where
  "ExitHint_draw self =
     (let height = vy (rect_size (eh_area self))
      in draw_str (eh_area self) (height - 1) 0 ''Press ESC to stop'')"

subsection \<open>Monitor\<close>

datatype Monitor = Monitor (mon_area: Rect) (mon_noise: string) (mon_rem_sec: "int option")

definition Monitor_main_content :: "Monitor \<Rightarrow> draw" where
  \<comment> \<open>the body of \<open>if height >= 3\<close> in \<open>Monitor.draw\<close>; the content callback given to the
      border calls \<open>_draw_sub_in\<close> of the monitor, not of the border\<close>
  "Monitor_main_content self =
     (let height = vy (rect_size (mon_area self)); width = vx (rect_size (mon_area self));
          noise = mon_noise self;
          draw_border = (5 \<le> height);
          width_threshold =
            int (length noise) + NoisingExpanded_token_exceeds_width
              + (if draw_border then 2 else 0);
          noising = (if width_threshold \<le> width then NoisingExpanded else NoisingCompressed);
          noising_area = Rect (Vector2D 0 0) (Vector2D (height - 2) width)
      in if draw_border
         then draw_sub_in (mon_area self)
                (\<lambda>a. Inr (BorderBox a
                   (\<lambda>area. draw_sub_in (mon_area self) (\<lambda>a'. Inr (noising a' noise))
                              Noising_draw (Some area))))
                BorderBox_draw (Some noising_area)
         else draw_sub_in (mon_area self) (\<lambda>a. Inr (noising a noise))
                Noising_draw (Some noising_area))"

definition Monitor_draw :: "Monitor \<Rightarrow> draw" where
  "Monitor_draw self =
     (let height = vy (rect_size (mon_area self))
      in seq (if 3 \<le> height then Monitor_main_content self else ok)
        (seq (if 2 \<le> height
              then (case mon_rem_sec self of
                      Some rem_sec \<Rightarrow>
                        draw_sub (mon_area self) (\<lambda>a. RemainingTime_init a rem_sec)
                          RemainingTime_draw
                    | None \<Rightarrow> ok)
              else ok)
             (if 1 \<le> height
              then draw_sub (mon_area self) (\<lambda>a. Inr (ExitHint a)) ExitHint_draw
              else ok)))"

subsection \<open>The abstract base\<close>

datatype ScreenElement =
    ABorderBox BorderBox
  | ANoising Noising
  | ARemainingTime RemainingTime
  | AnExitHint ExitHint
  | AMonitor Monitor

fun area_of :: "ScreenElement \<Rightarrow> Rect" where
  "area_of (ABorderBox e) = bb_area e"
| "area_of (ANoising e) = nz_area e"
| "area_of (ARemainingTime e) = rt_area e"
| "area_of (AnExitHint e) = eh_area e"
| "area_of (AMonitor e) = mon_area e"

fun draw :: "ScreenElement \<Rightarrow> draw" where
  "draw (ABorderBox e) = BorderBox_draw e"
| "draw (ANoising e) = Noising_draw e"
| "draw (ARemainingTime e) = RemainingTime_draw e"
| "draw (AnExitHint e) = ExitHint_draw e"
| "draw (AMonitor e) = Monitor_draw e"

section \<open>The render loop (app.py)\<close>

text \<open>
  The readings of \<open>time.monotonic()\<close> are floats. Floating point is not modelled: a
  float is a value of an arbitrary type \<open>'f\<close>, and the float operations that \<open>_frame\<close> and
  \<open>remaining_seconds\<close> apply are the fields of \<open>float_ops\<close>, so that what is proved of
  \<open>frame\<close> holds whatever they compute, rounding included. The two operations that can
  raise in Python return the exception instead.
\<close>

datatype float_error = OverflowError | ValueError

record 'f float_ops =
  f_sub :: "'f \<Rightarrow> 'f \<Rightarrow> 'f"
  f_int_sub :: "int \<Rightarrow> 'f \<Rightarrow> float_error + 'f"
  f_int :: "'f \<Rightarrow> float_error + int"
  f_ge :: "'f \<Rightarrow> 'f \<Rightarrow> bool"
  f_1_0 :: 'f

text \<open>
  \<open>f_sub x y\<close> is \<open>x - y\<close> on two floats; \<open>f_int_sub n x\<close> is \<open>n - x\<close> for an integer \<open>n\<close>,
  which Python converts to a float first and refuses with \<open>OverflowError\<close> when it is too
  large; \<open>f_int x\<close> is \<open>int(x)\<close>, which fails on an infinity or a NaN; \<open>f_ge x y\<close> is
  \<open>x >= y\<close>; \<open>f_1_0\<close> is the literal \<open>1.0\<close>.

  Only the fields of \<open>App\<close> that \<open>_frame\<close> reads or writes are kept.
\<close>

record 'f App =
  noise_text :: string
  max_time :: int
  start_time :: 'f
  beep_enabled :: bool
  last_beep :: 'f

text \<open>
  What one call of \<open>_frame\<close> reads from outside: the key returned by \<open>getch\<close> (\<open>-1\<close> for
  none), the value of \<open>getattr(curses, "KEY_MOUSE", -1)\<close>, the clock when the remaining
  time is computed and when the beep is considered, and the window's \<open>getmaxyx\<close>.
\<close>

record 'f tick =
  ch :: int
  KEY_MOUSE :: int
  now_remaining :: 'f
  now_beep :: 'f
  maxyx :: Vector2D

definition BEEP_INTERVAL :: "'f float_ops \<Rightarrow> 'f" where
  "BEEP_INTERVAL ops = f_1_0 ops"

definition max_area_of :: "Vector2D \<Rightarrow> Rect" where
  "max_area_of yx = from_dimensions 0 0 (vy yx) (vx yx)"

definition remaining_seconds :: "'f float_ops \<Rightarrow> 'f App \<Rightarrow> 'f \<Rightarrow> float_error + int option" where
  "remaining_seconds ops app now =
     (if max_time app = 0 then Inr None
      else
        (case f_int_sub ops (max_time app) (f_sub ops now (start_time app)) of
           Inl e \<Rightarrow> Inl e
         | Inr left \<Rightarrow>
             (case f_int ops left of
                Inl e \<Rightarrow> Inl e
              | Inr n \<Rightarrow> Inr (Some (max 0 n)))))"

definition frame_render ::
  "'f float_ops \<Rightarrow> 'f App \<Rightarrow> 'f tick \<Rightarrow> int option \<Rightarrow> surface \<Rightarrow> bool \<times> 'f App \<times> surface" where
  \<comment> \<open>\<open>_frame\<close> from \<open>stdscr.erase()\<close> on; a failure of the drawing is caught and printed\<close>
  "frame_render ops app t rem s =
     (let s1 = s @ [Erase];
          s2 = snd (swallow (Monitor_draw (Monitor (max_area_of (maxyx t)) (noise_text app) rem)) s1);
          s3 = s2 @ [Refresh]
      in if beep_enabled app
         then (if f_ge ops (f_sub ops (now_beep t) (last_beep app)) (BEEP_INTERVAL ops)
               then (True, app\<lparr>last_beep := now_beep t\<rparr>, s3 @ [Beep])
               else (True, app, s3))
         else (True, app, s3))"

definition frame_timed ::
  "'f float_ops \<Rightarrow> 'f App \<Rightarrow> 'f tick \<Rightarrow> surface \<Rightarrow> float_error + bool \<times> 'f App \<times> surface" where
  \<comment> \<open>\<open>_frame\<close> after the key has been looked at\<close>
  "frame_timed ops app t s =
     (case remaining_seconds ops app (now_remaining t) of
        Inl e \<Rightarrow> Inl e
      | Inr rem \<Rightarrow>
          (case rem of
             Some r \<Rightarrow>
               if r \<le> 0 then Inr (False, app, s)
               else Inr (frame_render ops app t rem s)
           | None \<Rightarrow> Inr (frame_render ops app t rem s)))"

definition frame ::
  "'f float_ops \<Rightarrow> 'f App \<Rightarrow> 'f tick \<Rightarrow> surface \<Rightarrow> float_error + bool \<times> 'f App \<times> surface" where
  \<comment> \<open>\<open>Inr\<close> holds what \<open>_frame\<close> returns, the state and the surface it leaves; \<open>Inl\<close> is an
      exception that leaves \<open>_frame\<close>\<close>
  "frame ops app t s =
     (if ch t \<noteq> - 1
      then (if ch t = 27 then Inr (False, app, s)
            else if ch t = KEY_MOUSE t then Inr (True, app, s)
            else frame_timed ops app t s)
      else frame_timed ops app t s)"

section \<open>Lemmas about the drawing primitives\<close>

lemma draw_str_ok:
  "0 \<le> y \<Longrightarrow> y < vy (rect_size area) \<Longrightarrow> 0 \<le> x \<Longrightarrow> x < vx (rect_size area) \<Longrightarrow>
   draw_str area y x str s =
     (None, s @ [AddStr (vy (rect_offset area) + y) (vx (rect_offset area) + x)
                   (take (nat (vx (rect_size area))) str)])"
  by (simp add: draw_str_def abs_coords_def require_def py_prefix_def)

lemma draw_str_out:
  "\<not> (0 \<le> y \<and> y < vy (rect_size area) \<and> 0 \<le> x \<and> x < vx (rect_size area)) \<Longrightarrow>
   draw_str area y x str s = (Some BoundsError, s)"
  by (auto simp add: draw_str_def abs_coords_def require_def)

lemma for_each_rows:
  assumes "\<forall>y \<in> set ys. 0 \<le> y \<and> y < vy (rect_size area)" "0 < vx (rect_size area)"
  shows "for_each ys (\<lambda>y. draw_str area y 0 line) s =
     (None, s @ map (\<lambda>y. AddStr (vy (rect_offset area) + y) (vx (rect_offset area))
                           (take (nat (vx (rect_size area))) line)) ys)"
  using assms
proof (induction ys arbitrary: s)
  case Nil
  then show ?case by (simp add: ok_def)
next
  case (Cons y ys)
  then show ?case by (simp add: seq_def draw_str_ok)
qed

lemma set_py_range: "set (py_range a b) = {a..<b}"
  by (auto simp add: py_range_def)

lemma py_range_empty: "b \<le> a \<Longrightarrow> py_range a b = []"
  by (simp add: py_range_def)

lemma py_range_nonempty: "a < b \<Longrightarrow> py_range a b \<noteq> []"
  using set_py_range [of a b] by (metis atLeastLessThan_iff empty_iff empty_set order_refl)

lemma for_each_rows_no_width:
  assumes "vx (rect_size area) \<le> 0"
  shows "for_each ys (\<lambda>y. draw_str area y 0 line) s =
           (if ys = [] then None else Some BoundsError, s)"
  using assms by (cases ys) (simp_all add: ok_def seq_def draw_str_out)

lemma Noising_draw_no_cells:
  assumes "vy (rect_size (nz_area self)) \<le> 0 \<or> vx (rect_size (nz_area self)) \<le> 0"
  shows "Noising_draw self s =
           (if 0 < vy (rect_size (nz_area self)) then Some BoundsError else None, s)"
proof (cases "0 < vy (rect_size (nz_area self))")
  case True
  with assms show ?thesis
    by (simp add: Noising_draw_def Let_def for_each_rows_no_width py_range_nonempty)
next
  case False
  then show ?thesis by (simp add: Noising_draw_def Let_def py_range_empty ok_def)
qed

lemma BorderBox_draw_no_cells:
  assumes "vy (rect_size (bb_area self)) \<le> 0 \<or> vx (rect_size (bb_area self)) \<le> 0"
  shows "BorderBox_draw self s = (None, s)"
proof -
  have "draw_str (bb_area self) 0 0 (horizon_border (vx (rect_size (bb_area self)))) s
          = (Some BoundsError, s)"
    using assms by (intro draw_str_out) auto
  then show ?thesis by (simp add: BorderBox_draw_def swallow_def BorderBox_body_def Let_def seq_def)
qed

lemma RemainingTime_draw_no_cells:
  assumes "vy (rect_size (rt_area self)) \<le> 1 \<or> vx (rect_size (rt_area self)) \<le> 0"
  shows "RemainingTime_draw self s = (Some BoundsError, s)"
  using assms by (auto simp add: RemainingTime_draw_def Let_def intro!: draw_str_out)

lemma ExitHint_draw_no_cells:
  assumes "vy (rect_size (eh_area self)) \<le> 0 \<or> vx (rect_size (eh_area self)) \<le> 0"
  shows "ExitHint_draw self s = (Some BoundsError, s)"
  using assms by (auto simp add: ExitHint_draw_def Let_def intro!: draw_str_out)

lemma band_area:
  "inner_area area (Rect (Vector2D 0 0) (Vector2D (vy (rect_size area) - 2) (vx (rect_size area))))
     = Rect (rect_offset area) (Vector2D (vy (rect_size area) - 2) (vx (rect_size area)))"
  by (simp add: inner_area_def)

lemma draw_sub_in_total_factory:
  "draw_sub_in area (\<lambda>a. Inr (mk a)) draw_of (Some r) = draw_of (mk (inner_area area r))"
  "draw_sub_in area (\<lambda>a. Inr (mk a)) draw_of None = draw_of (mk area)"
  by (rule ext, simp add: draw_sub_in_def)+

lemma Monitor_main_content_eq:
  "Monitor_main_content self =
     (let area = mon_area self; height = vy (rect_size area); width = vx (rect_size area);
          band = Rect (rect_offset area) (Vector2D (height - 2) width);
          noising = (if int (length (mon_noise self)) + 4 + (if 5 \<le> height then 2 else 0) \<le> width
                     then NoisingExpanded else NoisingCompressed)
      in if 5 \<le> height
         then BorderBox_draw (BorderBox band
                (\<lambda>a. Noising_draw (noising (inner_area area a) (mon_noise self))))
         else Noising_draw (noising band (mon_noise self)))"
  by (simp add: Monitor_main_content_def Let_def draw_sub_in_total_factory band_area
        NoisingExpanded_token_exceeds_width_def)

lemma Monitor_main_content_no_width:
  assumes "vx (rect_size (mon_area self)) \<le> 0" "3 \<le> vy (rect_size (mon_area self))"
  shows "Monitor_main_content self s =
           (if 5 \<le> vy (rect_size (mon_area self)) then None else Some BoundsError, s)"
  using assms
  by (simp add: Monitor_main_content_eq Let_def BorderBox_draw_no_cells Noising_draw_no_cells)

lemma seq_unchanged:
  assumes "snd (a s) = s" "snd (b s) = s"
  shows "snd (seq a b s) = s"
  using assms by (cases "a s"; cases "b s"; simp add: seq_def split: option.splits)

lemma Monitor_parts_no_width:
  assumes "vx (rect_size (mon_area self)) \<le> 0"
  shows "snd ((if 3 \<le> vy (rect_size (mon_area self)) then Monitor_main_content self else ok) s) = s"
    and "snd ((case mon_rem_sec self of
                 Some rem_sec \<Rightarrow>
                   if 2 \<le> vy (rect_size (mon_area self))
                   then (\<lambda>s. case RemainingTime_init (mon_area self) rem_sec of
                                Inl e \<Rightarrow> (Some e, s)
                              | Inr sub \<Rightarrow> RemainingTime_draw sub s)
                   else ok
               | None \<Rightarrow> ok) s) = s"
    and "snd ((if 1 \<le> vy (rect_size (mon_area self))
               then ExitHint_draw (ExitHint (mon_area self)) else ok) s) = s"
  using assms
  by (auto simp add: Monitor_main_content_no_width ok_def RemainingTime_init_def require_def
        RemainingTime_draw_no_cells ExitHint_draw_no_cells split: option.splits)

lemma Monitor_draw_parts:
  "Monitor_draw self =
     seq (if 3 \<le> vy (rect_size (mon_area self)) then Monitor_main_content self else ok)
    (seq (case mon_rem_sec self of
            Some rem_sec \<Rightarrow>
              if 2 \<le> vy (rect_size (mon_area self))
              then (\<lambda>s. case RemainingTime_init (mon_area self) rem_sec of
                           Inl e \<Rightarrow> (Some e, s)
                         | Inr sub \<Rightarrow> RemainingTime_draw sub s)
              else ok
          | None \<Rightarrow> ok)
         (if 1 \<le> vy (rect_size (mon_area self))
          then ExitHint_draw (ExitHint (mon_area self)) else ok))"
proof -
  have r: "\<And>r. draw_sub (mon_area self) (\<lambda>a. RemainingTime_init a r) RemainingTime_draw
        = (\<lambda>s. case RemainingTime_init (mon_area self) r of
                  Inl e \<Rightarrow> (Some e, s)
                | Inr sub \<Rightarrow> RemainingTime_draw sub s)"
    by (rule ext) (simp add: draw_sub_def draw_sub_in_def)
  have e: "draw_sub (mon_area self) (\<lambda>a. Inr (ExitHint a)) ExitHint_draw
        = ExitHint_draw (ExitHint (mon_area self))"
    by (simp add: draw_sub_def draw_sub_in_total_factory)
  show ?thesis
    by (cases "mon_rem_sec self") (simp_all add: Monitor_draw_def Let_def r e)
qed

lemma Monitor_draw_no_cells:
  assumes "vy (rect_size (mon_area self)) \<le> 0 \<or> vx (rect_size (mon_area self)) \<le> 0"
  shows "snd (Monitor_draw self s) = s"
    and "(fst (Monitor_draw self s) = None) = (vy (rect_size (mon_area self)) \<le> 0)"
proof -
  let ?h = "vy (rect_size (mon_area self))"
  show "snd (Monitor_draw self s) = s"
  proof (cases "?h \<le> 0")
    case True
    then show ?thesis by (simp add: Monitor_draw_parts seq_def ok_def split: option.splits)
  next
    case False
    with assms have w: "vx (rect_size (mon_area self)) \<le> 0" by simp
    have bc: "snd (seq
        (case mon_rem_sec self of
           Some rem_sec \<Rightarrow>
             if 2 \<le> vy (rect_size (mon_area self))
             then (\<lambda>s. case RemainingTime_init (mon_area self) rem_sec of
                          Inl e \<Rightarrow> (Some e, s)
                        | Inr sub \<Rightarrow> RemainingTime_draw sub s)
             else ok
         | None \<Rightarrow> ok)
        (if 1 \<le> vy (rect_size (mon_area self))
         then ExitHint_draw (ExitHint (mon_area self)) else ok) s) = s"
      by (rule seq_unchanged) (rule Monitor_parts_no_width [OF w])+
    show ?thesis
      unfolding Monitor_draw_parts
      by (rule seq_unchanged) (rule Monitor_parts_no_width [OF w] bc)+
  qed
  show "(fst (Monitor_draw self s) = None) = (?h \<le> 0)"
  proof (cases "?h \<le> 0")
    case True
    then show ?thesis by (simp add: Monitor_draw_parts seq_def ok_def split: option.splits)
  next
    case False
    with assms have w: "vx (rect_size (mon_area self)) \<le> 0" by simp
    have e: "ExitHint_draw (ExitHint (mon_area self)) s = (Some BoundsError, s)" for s
      using w by (simp add: ExitHint_draw_no_cells)
    have "fst (Monitor_draw self s) \<noteq> None"
      using False e
      by (simp add: Monitor_draw_parts seq_def split: prod.splits option.splits)
    with False show ?thesis by simp
  qed
qed

section \<open>Lemmas about the filler line and the time format\<close>

lemma length_py_repeat: "length (py_repeat xs n) = nat n * length xs"
  by (simp add: py_repeat_def length_concat sum_list_replicate)

lemma noising_line_nonempty_token:
  assumes "tok \<noteq> []"
  shows "noising_line tok w =
     (if w mod int (length tok) = 0 then py_repeat tok (w div int (length tok))
      else py_prefix w (py_repeat tok (w div int (length tok) + 1)))"
  using assms by (simp add: noising_line_def Let_def)

lemma noising_line_length:
  assumes "1 \<le> w" "tok \<noteq> []"
  shows "length (noising_line tok w) = nat w"
proof -
  let ?L = "int (length tok)"
  have L: "0 < ?L" using assms by simp
  have d: "0 \<le> w div ?L" using L assms by (simp add: pos_imp_zdiv_nonneg_iff)
  show ?thesis
  proof (cases "w mod ?L = 0")
    case True
    then have "w = (w div ?L) * ?L" by auto
    with d have "int (nat (w div ?L) * length tok) = w" by simp
    then have "nat (w div ?L) * length tok = nat w" by linarith
    with True assms show ?thesis by (simp add: noising_line_nonempty_token length_py_repeat)
  next
    case False
    have "w < (w div ?L + 1) * ?L"
      using L by (metis div_mult_mod_eq distrib_right mult_1 pos_mod_bound add_strict_left_mono)
    moreover have "int (nat (w div ?L + 1) * length tok) = (w div ?L + 1) * ?L" using d by simp
    ultimately have "nat w \<le> nat (w div ?L + 1) * length tok" by linarith
    with False assms show ?thesis
      by (simp add: noising_line_nonempty_token length_py_repeat py_prefix_def)
  qed
qed

lemma noising_line_take:
  assumes "1 \<le> w" "tok \<noteq> []"
  shows "noising_line tok w =
     take (nat w) (py_repeat tok (if w mod int (length tok) = 0 then w div int (length tok)
                                  else w div int (length tok) + 1))"
proof (cases "w mod int (length tok) = 0")
  case True
  have "length (noising_line tok w) = nat w" using assms by (rule noising_line_length)
  with True assms have "length (py_repeat tok (w div int (length tok))) = nat w"
    by (simp add: noising_line_nonempty_token)
  with True assms show ?thesis by (simp add: noising_line_nonempty_token)
next
  case False
  with assms show ?thesis by (simp add: noising_line_nonempty_token py_prefix_def)
qed

lemma token_nonempty: "token self \<noteq> []"
  by (cases self) simp_all

lemma str_nat_digit: "n < 10 \<Longrightarrow> str_nat n = [digit_char n]"
  by (simp add: str_nat.simps)

lemma str_nat_two: "10 \<le> n \<Longrightarrow> n < 100 \<Longrightarrow> str_nat n = [digit_char (n div 10), digit_char (n mod 10)]"
  by (subst str_nat.simps) (simp add: str_nat_digit)

lemma fmt_02d_length: "0 \<le> i \<Longrightarrow> i < 100 \<Longrightarrow> length (fmt_02d i) = 2"
  by (cases "i < 10") (simp_all add: fmt_02d_def str_int_def str_nat_digit str_nat_two)

lemma fmt_02d_div_length:
  fixes r u b :: int
  assumes "0 \<le> r" "r \<le> u" "0 < b" "u div b < 100"
  shows "length (fmt_02d (r div b)) = 2"
proof (rule fmt_02d_length)
  show "0 \<le> r div b" using assms(1,3) by (simp only: pos_imp_zdiv_nonneg_iff)
  have "r div b \<le> u div b" using assms(2,3) by (rule zdiv_mono1)
  then show "r div b < 100" using assms(4) by (rule le_less_trans)
qed

lemma mod_range:
  fixes k l :: int
  assumes "0 < l"
  shows "0 \<le> k mod l" "k mod l \<le> l - 1"
proof -
  show "0 \<le> k mod l" using assms by (rule pos_mod_sign)
  have "k mod l < l" using assms by (rule pos_mod_bound)
  then show "k mod l \<le> l - 1" by (simp only: zle_diff1_eq)
qed

lemma fmt_02d_mod_div_length:
  fixes k l b :: int
  assumes "0 < l" "0 < b" "(l - 1) div b < 100"
  shows "length (fmt_02d ((k mod l) div b)) = 2"
proof (rule fmt_02d_div_length [where u = "l - 1"])
  show "0 \<le> k mod l" using assms(1) by (rule mod_range)
  show "k mod l \<le> l - 1" using assms(1) by (rule mod_range)
  show "0 < b" by (rule assms)
  show "(l - 1) div b < 100" by (rule assms)
qed

section \<open>Lemmas about the calls of the monitor\<close>













section \<open>The claims\<close>

text \<open>
  Claim C1. For every noise string and every width \<open>w \<ge> 1\<close>, the line a filler builds is
  its token repeated \<open>r\<close> times and cut to \<open>w\<close> characters, where the token is four
  spaces and the noise (expanded) or the noise and one space (compressed), and \<open>r\<close> is
  \<open>w div tokenLen\<close> when the token length divides \<open>w\<close> and one more otherwise; nothing is
  cut in the even case. The line has length \<open>w\<close> and is the text written at column 0 of
  every row \<open>0 \<le> y < height\<close> of the filler's area, in order, with no failure.
\<close>

theorem C1_filler_line_fills_every_row:
  assumes "1 \<le> w" and "rect_size (nz_area self) = Vector2D h w"
  shows "token (NoisingExpanded area noise) = ''    '' @ noise
       \<and> token (NoisingCompressed area noise) = noise @ '' ''
       \<and> noising_line (token self) w =
           take (nat w) (py_repeat (token self)
              (if w mod int (length (token self)) = 0 then w div int (length (token self))
               else w div int (length (token self)) + 1))
       \<and> (w mod int (length (token self)) = 0 \<longrightarrow>
            noising_line (token self) w = py_repeat (token self) (w div int (length (token self))))
       \<and> length (noising_line (token self) w) = nat w
       \<and> Noising_draw self s =
           (None, s @ map (\<lambda>y. AddStr (vy (rect_offset (nz_area self)) + y)
                                  (vx (rect_offset (nz_area self)))
                                  (noising_line (token self) w)) [0..h - 1])"
proof -
  have t: "token self \<noteq> []" by (rule token_nonempty)
  have len: "length (noising_line (token self) w) = nat w"
    using assms(1) t by (rule noising_line_length)
  have rows: "\<forall>y \<in> set (py_range 0 h). 0 \<le> y \<and> y < vy (rect_size (nz_area self))"
    using assms(2) by (simp add: set_py_range)
  have "Noising_draw self s =
      (None, s @ map (\<lambda>y. AddStr (vy (rect_offset (nz_area self)) + y)
                             (vx (rect_offset (nz_area self)))
                             (take (nat w) (noising_line (token self) w))) (py_range 0 h))"
    using for_each_rows [OF rows, of "noising_line (token self) w" s] assms
    by (simp add: Noising_draw_def Let_def)
  with len have d: "Noising_draw self s =
      (None, s @ map (\<lambda>y. AddStr (vy (rect_offset (nz_area self)) + y)
                             (vx (rect_offset (nz_area self)))
                             (noising_line (token self) w)) [0..h - 1])"
    by (simp add: py_range_def)
  show ?thesis
    using noising_line_take [OF assms(1) t] len d t
    by (simp add: noising_line_nonempty_token)
qed

theorem C1_filler_line_fills_every_row_witness:
  "(1::int) \<le> 5 \<and> noising_line ''X '' 5 = ''X X X''
   \<and> Noising_draw (NoisingCompressed (Rect (Vector2D 1 2) (Vector2D 2 5)) ''X'') [] =
       (None, [AddStr 1 2 ''X X X'', AddStr 2 2 ''X X X''])
   \<and> (1::int) \<le> 10 \<and> (10::int) mod int (length ''    b'') = 0
   \<and> noising_line ''    b'' 10 = ''    b    b''
   \<and> Noising_draw (NoisingExpanded (Rect (Vector2D 0 0) (Vector2D 1 10)) ''b'') [] =
       (None, [AddStr 0 0 ''    b    b''])"
  using C1_filler_line_fills_every_row
    [where w = 5 and h = 2 and s = "[]"
       and self = "NoisingCompressed (Rect (Vector2D 1 2) (Vector2D 2 5)) ''X''"]
    C1_filler_line_fills_every_row
    [where w = 10 and h = 1 and s = "[]"
       and self = "NoisingExpanded (Rect (Vector2D 0 0) (Vector2D 1 10)) ''b''"]
  by (simp add: py_repeat_def upto.simps eval_nat_numeral)

text \<open>
  Claim C2. For every noise text of length \<open>L\<close> and every area of height at least 3,
  \<open>Monitor.draw\<close> starts with the content band (the monitor's offset, \<open>height - 2\<close> rows,
  full width): a \<open>BorderBox\<close> around the filler if and only if \<open>height \<ge> 5\<close>, the bare
  filler otherwise; the filler is the expanded one if and only if
  \<open>width \<ge> L + 4 + (2 if bordered else 0)\<close>, the compressed one otherwise. With a border
  the expanded filler is chosen if and only if \<open>width \<ge> L + 6\<close>.
\<close>

theorem C2_monitor_border_and_filler_choice:
  assumes "3 \<le> vy (rect_size (mon_area self))"
  shows
    "(let area = mon_area self; height = vy (rect_size area); width = vx (rect_size area);
          noise = mon_noise self;
          bordered = (5 \<le> height);
          expanded = (int (length noise) + 4 + (if bordered then 2 else 0) \<le> width);
          noising = (if expanded then NoisingExpanded else NoisingCompressed);
          band = Rect (rect_offset area) (Vector2D (height - 2) width)
      in Monitor_draw self =
           seq (if bordered
                then BorderBox_draw (BorderBox band
                       (\<lambda>a. Noising_draw (noising (inner_area area a) noise)))
                else Noising_draw (noising band noise))
          (seq (case mon_rem_sec self of
                  Some rem_sec \<Rightarrow>
                    draw_sub area (\<lambda>a. RemainingTime_init a rem_sec) RemainingTime_draw
                | None \<Rightarrow> ok)
               (draw_sub area (\<lambda>a. Inr (ExitHint a)) ExitHint_draw))
         \<and> (bordered \<longrightarrow> expanded = (int (length noise) + 6 \<le> width)))"
  using assms
  by (auto simp add: Monitor_draw_def Monitor_main_content_eq Let_def)

theorem C2_monitor_border_and_filler_choice_witness:
  "3 \<le> vy (rect_size (mon_area (Monitor (Rect (Vector2D 0 0) (Vector2D 6 12)) ''beep'' None)))
   \<and> Monitor_draw (Monitor (Rect (Vector2D 0 0) (Vector2D 6 12)) ''beep'' None) =
       seq (BorderBox_draw (BorderBox (Rect (Vector2D 0 0) (Vector2D 4 12))
              (\<lambda>a. Noising_draw
                 (NoisingExpanded (inner_area (Rect (Vector2D 0 0) (Vector2D 6 12)) a) ''beep''))))
      (seq ok (draw_sub (Rect (Vector2D 0 0) (Vector2D 6 12)) (\<lambda>a. Inr (ExitHint a)) ExitHint_draw))
   \<and> 3 \<le> vy (rect_size (mon_area (Monitor (Rect (Vector2D 0 0) (Vector2D 4 7)) ''beep'' None)))
   \<and> Monitor_draw (Monitor (Rect (Vector2D 0 0) (Vector2D 4 7)) ''beep'' None) =
       seq (Noising_draw (NoisingCompressed (Rect (Vector2D 0 0) (Vector2D 2 7)) ''beep''))
      (seq ok (draw_sub (Rect (Vector2D 0 0) (Vector2D 4 7)) (\<lambda>a. Inr (ExitHint a)) ExitHint_draw))"
  using C2_monitor_border_and_filler_choice
          [of "Monitor (Rect (Vector2D 0 0) (Vector2D 6 12)) ''beep'' None"]
        C2_monitor_border_and_filler_choice
          [of "Monitor (Rect (Vector2D 0 0) (Vector2D 4 7)) ''beep'' None"]
  by (simp add: Let_def)

text \<open>
  Claim C3, at the input where the code departs from it. An element of 1 row and 3
  columns is asked to draw \<open>abcd\<close> at local column 1. Two columns remain from there, but
  \<open>_draw_str\<close> cuts the text to the element's whole width, so three characters are
  written from column 1 and the last one lies in column 3, outside the element's
  columns 0 to 2.
\<close>

theorem C3_draw_str_cuts_to_whole_width:
  "draw_str (Rect (Vector2D 0 0) (Vector2D 1 3)) 0 1 ''abcd'' [] = (None, [AddStr 0 1 ''abc''])
   \<and> int (length ''abc'') > 3 - 1"
  by (simp add: draw_str_def abs_coords_def require_def py_prefix_def)

text \<open>
  Claim C4. For every parent area and every relative rectangle, \<open>_draw_sub_in\<close> hands the
  factory the area whose offset is the parent's offset plus the relative offset and
  whose size is the componentwise minimum of the two sizes, and then draws the child it
  built (or fails as the factory did). Nothing compares the relative offset with the
  parent's bounds.
\<close>

theorem C4_draw_sub_in_child_area:
  "inner_area parent rel =
     Rect (Vector2D (vy (rect_offset parent) + vy (rect_offset rel))
                    (vx (rect_offset parent) + vx (rect_offset rel)))
          (Vector2D (min (vy (rect_size parent)) (vy (rect_size rel)))
                    (min (vx (rect_size parent)) (vx (rect_size rel))))
   \<and> draw_sub_in parent factory draw_of (Some rel) s =
       (case factory (inner_area parent rel) of
          Inl e \<Rightarrow> (Some e, s)
        | Inr child \<Rightarrow> draw_of child s)"
  by (simp add: inner_area_def draw_sub_in_def)

theorem C4_draw_sub_in_child_area_witness:
  "inner_area (Rect (Vector2D 2 3) (Vector2D 10 20)) (Rect (Vector2D 9 30) (Vector2D 50 5))
     = Rect (Vector2D 11 33) (Vector2D 10 5)
   \<and> draw_sub_in (Rect (Vector2D 2 3) (Vector2D 10 20)) (\<lambda>a. Inr (ExitHint a)) ExitHint_draw
       (Some (Rect (Vector2D 9 30) (Vector2D 50 5))) []
     = ExitHint_draw (ExitHint (Rect (Vector2D 11 33) (Vector2D 10 5))) []"
  using C4_draw_sub_in_child_area
    [of "Rect (Vector2D 2 3) (Vector2D 10 20)" "Rect (Vector2D 9 30) (Vector2D 50 5)"
        "\<lambda>a. Inr (ExitHint a)" ExitHint_draw "[]"]
  by simp




text \<open>
  Claim C6, as the code has it. For every strictly positive \<open>s\<close>: above 86400 the text
  is the days \<open>s div 86400\<close>, \<open>days and\<close>, and hours and minutes of \<open>s mod 86400\<close>; from
  61 to 86400 it is hours \<open>s div 3600\<close> (at most 24, no days) and minutes
  \<open>(s mod 3600) div 60\<close>; up to 60 it is the seconds followed by \<open>s\<close>. Hours and minutes
  are two characters wide. The seconds are dropped in the two upper tiers, so 90 seconds
  print as \<open>00:01\<close>; 45 prints as \<open>45s\<close> and 90000 as \<open>1 days and 01:00\<close>.
\<close>

theorem C6_format_time_tiers:
  assumes "0 < s"
  shows "(86400 < s \<longrightarrow>
            format_time s = str_int (s div 86400) @ '' days and ''
               @ fmt_02d ((s mod 86400) div 3600) @ '':'' @ fmt_02d (((s mod 86400) mod 3600) div 60)
            \<and> length (fmt_02d ((s mod 86400) div 3600)) = 2
            \<and> length (fmt_02d (((s mod 86400) mod 3600) div 60)) = 2)
       \<and> (60 < s \<and> s \<le> 86400 \<longrightarrow>
            format_time s = fmt_02d (s div 3600) @ '':'' @ fmt_02d ((s mod 3600) div 60)
            \<and> s div 3600 \<le> 24
            \<and> length (fmt_02d (s div 3600)) = 2
            \<and> length (fmt_02d ((s mod 3600) div 60)) = 2)
       \<and> (s \<le> 60 \<longrightarrow> format_time s = str_int s @ ''s'')
       \<and> format_time 45 = ''45s''
       \<and> format_time 90 = ''00:01''
       \<and> format_time 90000 = ''1 days and 01:00''"
proof -
  have a: "86400 < s \<longrightarrow>
            format_time s = str_int (s div 86400) @ '' days and ''
               @ fmt_02d ((s mod 86400) div 3600) @ '':'' @ fmt_02d (((s mod 86400) mod 3600) div 60)"
    by (simp add: format_time_def SECONDS_DAY_def SECONDS_HOUR_def SECONDS_MINUTE_def Let_def)
  have b: "60 < s \<and> s \<le> 86400 \<longrightarrow>
            format_time s = fmt_02d (s div 3600) @ '':'' @ fmt_02d ((s mod 3600) div 60)"
    by (simp add: format_time_def SECONDS_DAY_def SECONDS_HOUR_def SECONDS_MINUTE_def Let_def)
  have c: "s \<le> 60 \<longrightarrow> format_time s = str_int s @ ''s''"
    by (simp add: format_time_def SECONDS_DAY_def)
  have h1: "length (fmt_02d ((s mod 86400) div 3600)) = 2"
    by (rule fmt_02d_mod_div_length) simp_all
  have m1: "length (fmt_02d (((s mod 86400) mod 3600) div 60)) = 2"
    by (rule fmt_02d_mod_div_length) simp_all
  have m2: "length (fmt_02d ((s mod 3600) div 60)) = 2"
    by (rule fmt_02d_mod_div_length) simp_all
  have h2: "s \<le> 86400 \<longrightarrow> s div 3600 \<le> 24 \<and> length (fmt_02d (s div 3600)) = 2"
  proof
    assume le: "s \<le> 86400"
    then have "s div 3600 \<le> 86400 div 3600" by (rule zdiv_mono1) simp
    then have u: "s div 3600 \<le> 24" by simp
    have "length (fmt_02d (s div 3600)) = 2"
      using assms le by (intro fmt_02d_div_length [where u = 86400]) simp_all
    with u show "s div 3600 \<le> 24 \<and> length (fmt_02d (s div 3600)) = 2" by (rule conjI)
  qed
  have e: "format_time 45 = ''45s'' \<and> format_time 90 = ''00:01''
           \<and> format_time 90000 = ''1 days and 01:00''"
    by (simp add: format_time_def SECONDS_DAY_def SECONDS_HOUR_def SECONDS_MINUTE_def
          fmt_02d_def str_int_def str_nat_digit str_nat_two digit_char_def)
  show ?thesis using a b c h1 m1 m2 h2 e by blast
qed

theorem C6_format_time_tiers_witness:
  "(0::int) < 100000 \<and> (86400::int) < 100000 \<and> format_time 100000 = ''1 days and 03:46''
   \<and> (0::int) < 86400 \<and> (60::int) < 86400 \<and> format_time 86400 = ''24:00''
   \<and> (0::int) < 60 \<and> format_time 60 = ''60s''"
  using C6_format_time_tiers [of 100000] C6_format_time_tiers [of 86400]
        C6_format_time_tiers [of 60]
  by (simp add: fmt_02d_def str_int_def str_nat_digit str_nat_two digit_char_def)

text \<open>
  Claim C6 as it was stated gives \<open>01:30\<close> for 90 seconds; the code prints hours and
  minutes there.
\<close>

theorem C6_format_time_90_counterexample:
  "format_time 90 = ''00:01'' \<and> format_time 90 \<noteq> ''01:30''"
  by (simp add: format_time_def SECONDS_DAY_def SECONDS_HOUR_def SECONDS_MINUTE_def
        fmt_02d_def str_int_def str_nat_digit digit_char_def)

text \<open>
  Claim C7. Constructing a \<open>RemainingTime\<close> fails, with \<open>InvalidArgument\<close>, if and only
  if the remaining seconds are zero or negative; for every strictly positive value the
  constructor returns the element holding the area and the value.
\<close>

theorem C7_remaining_time_init:
  "(RemainingTime_init area r = Inl InvalidArgument) = (r \<le> 0)
   \<and> (\<exists>e. RemainingTime_init area r = Inl e) = (r \<le> 0)
   \<and> (RemainingTime_init area r = Inr (RemainingTime area r)) = (0 < r)"
  by (auto simp add: RemainingTime_init_def require_def)

theorem C7_remaining_time_init_witness:
  "RemainingTime_init (Rect (Vector2D 0 0) (Vector2D 24 80)) 0 = Inl InvalidArgument
   \<and> RemainingTime_init (Rect (Vector2D 0 0) (Vector2D 24 80)) (- 3) = Inl InvalidArgument
   \<and> RemainingTime_init (Rect (Vector2D 0 0) (Vector2D 24 80)) 1
       = Inr (RemainingTime (Rect (Vector2D 0 0) (Vector2D 24 80)) 1)"
  using C7_remaining_time_init [of "Rect (Vector2D 0 0) (Vector2D 24 80)" 0]
        C7_remaining_time_init [of "Rect (Vector2D 0 0) (Vector2D 24 80)" "- 3"]
        C7_remaining_time_init [of "Rect (Vector2D 0 0) (Vector2D 24 80)" 1]
  by simp

text \<open>
  Claim C8, as the code has it. For every screen element whose area has zero rows or
  zero columns, \<open>draw\<close> leaves the surface as it was. Whether it returns depends on the
  class: a \<open>BorderBox\<close> returns (it swallows the failure of its first write); a filler
  returns when it has no row and fails with \<open>BoundsError\<close> when it has rows of no
  column; \<open>RemainingTime\<close> and \<open>ExitHint\<close> fail with \<open>BoundsError\<close>; a \<open>Monitor\<close> returns
  if and only if it has no row.
\<close>

theorem C8_zero_size_draw_writes_nothing:
  assumes "vy (rect_size (area_of e)) = 0 \<or> vx (rect_size (area_of e)) = 0"
  shows "snd (draw e s) = s
       \<and> (case e of
            ABorderBox b \<Rightarrow> fst (draw e s) = None
          | ANoising n \<Rightarrow>
              fst (draw e s) = (if 0 < vy (rect_size (area_of e)) then Some BoundsError else None)
          | ARemainingTime r \<Rightarrow> fst (draw e s) = Some BoundsError
          | AnExitHint x \<Rightarrow> fst (draw e s) = Some BoundsError
          | AMonitor m \<Rightarrow> (fst (draw e s) = None) = (vy (rect_size (area_of e)) \<le> 0))"
proof (cases e)
  case (ABorderBox b)
  with assms show ?thesis by (auto simp add: BorderBox_draw_no_cells)
next
  case (ANoising n)
  with assms show ?thesis by (auto simp add: Noising_draw_no_cells)
next
  case (ARemainingTime r)
  with assms show ?thesis by (auto simp add: RemainingTime_draw_no_cells)
next
  case (AnExitHint x)
  with assms show ?thesis by (auto simp add: ExitHint_draw_no_cells)
next
  case (AMonitor m)
  with assms have "vy (rect_size (mon_area m)) \<le> 0 \<or> vx (rect_size (mon_area m)) \<le> 0" by auto
  from Monitor_draw_no_cells [OF this, of s] AMonitor show ?thesis by simp
qed

theorem C8_zero_size_draw_writes_nothing_witness:
  "vy (rect_size (area_of (AMonitor (Monitor (Rect (Vector2D 0 0) (Vector2D 0 80)) ''beep'' None)))) = 0
   \<and> draw (AMonitor (Monitor (Rect (Vector2D 0 0) (Vector2D 0 80)) ''beep'' None)) [] = (None, [])
   \<and> vx (rect_size (area_of (ANoising (NoisingCompressed (Rect (Vector2D 0 0) (Vector2D 3 0)) ''beep'')))) = 0
   \<and> draw (ANoising (NoisingCompressed (Rect (Vector2D 0 0) (Vector2D 3 0)) ''beep'')) []
       = (Some BoundsError, [])"
  using C8_zero_size_draw_writes_nothing
          [of "AMonitor (Monitor (Rect (Vector2D 0 0) (Vector2D 0 80)) ''beep'' None)" "[]"]
        C8_zero_size_draw_writes_nothing
          [of "ANoising (NoisingCompressed (Rect (Vector2D 0 0) (Vector2D 3 0)) ''beep'')" "[]"]
  by (simp add: prod_eq_iff)

text \<open>
  Claim C8 as it was stated says that the draw does not fail; an \<open>ExitHint\<close> over an
  area of no row and 80 columns fails with \<open>BoundsError\<close>.
\<close>

theorem C8_exit_hint_zero_height_counterexample:
  "vy (rect_size (area_of (AnExitHint (ExitHint (Rect (Vector2D 0 0) (Vector2D 0 80)))))) = 0
   \<and> draw (AnExitHint (ExitHint (Rect (Vector2D 0 0) (Vector2D 0 80)))) [] = (Some BoundsError, [])"
  by (simp add: ExitHint_draw_def draw_str_def abs_coords_def require_def)

text \<open>
  Claim C9. Whatever the state of the loop (start time, maximal duration, time left,
  pending beep) and whatever the float arithmetic does, when the key polled at the top of
  a tick is ESC (27), \<open>_frame\<close> returns \<open>False\<close> without raising, and neither the surface
  nor the state has changed: nothing is erased or drawn.
\<close>

theorem C9_frame_esc_stops:
  assumes "ch t = 27"
  shows "frame ops app t s = Inr (False, app, s)"
  using assms by (simp add: frame_def)

theorem C9_frame_esc_stops_witness:
  "ch \<lparr>ch = 27, KEY_MOUSE = 409, now_remaining = 1 :: int, now_beep = 1, maxyx = Vector2D 24 80\<rparr> = 27
   \<and> frame \<lparr>f_sub = (\<lambda>x y. x - y), f_int_sub = (\<lambda>n x. Inr (n - x)), f_int = Inr,
             f_ge = (\<lambda>x y. y \<le> x), f_1_0 = 1\<rparr>
        \<lparr>noise_text = ''beep'', max_time = 60, start_time = 0, beep_enabled = True, last_beep = 0\<rparr>
        \<lparr>ch = 27, KEY_MOUSE = 409, now_remaining = 1, now_beep = 1, maxyx = Vector2D 24 80\<rparr> []
      = Inr (False,
          \<lparr>noise_text = ''beep'', max_time = 60, start_time = 0, beep_enabled = True, last_beep = 0\<rparr>,
          [])"
  using C9_frame_esc_stops
    [of "\<lparr>ch = 27, KEY_MOUSE = 409, now_remaining = 1 :: int, now_beep = 1, maxyx = Vector2D 24 80\<rparr>"
        "\<lparr>f_sub = (\<lambda>x y. x - y), f_int_sub = (\<lambda>n x. Inr (n - x)), f_int = Inr,
          f_ge = (\<lambda>x y. y \<le> x), f_1_0 = 1\<rparr>"
        "\<lparr>noise_text = ''beep'', max_time = 60, start_time = 0, beep_enabled = True, last_beep = 0\<rparr>"
        "[]"]
  by simp

text \<open>
  Claim C10. For every noise string, the empty one included, the expanded token has
  length \<open>len(noise) + 4\<close> and the compressed token has length \<open>len(noise) + 1\<close>; the token
  of a filler is therefore never empty, and the line it builds is always the one of the
  repeating branch, never the fill with spaces.
\<close>

theorem C10_token_never_empty:
  "length (token (NoisingExpanded area noise)) = length noise + 4
   \<and> length (token (NoisingCompressed area noise)) = length noise + 1
   \<and> token self \<noteq> []
   \<and> noising_line (token self) width =
       (if width mod int (length (token self)) = 0
        then py_repeat (token self) (width div int (length (token self)))
        else py_prefix width (py_repeat (token self) (width div int (length (token self)) + 1)))"
  using token_nonempty [of self] by (simp add: noising_line_nonempty_token)

theorem C10_token_never_empty_witness:
  "length (token (NoisingExpanded (Rect (Vector2D 0 0) (Vector2D 2 6)) [])) = 4
   \<and> length (token (NoisingCompressed (Rect (Vector2D 0 0) (Vector2D 2 6)) [])) = 1
   \<and> noising_line (token (NoisingCompressed (Rect (Vector2D 0 0) (Vector2D 2 6)) [])) 3 = ''   ''"
  using C10_token_never_empty
    [where area = "Rect (Vector2D 0 0) (Vector2D 2 6)" and noise = "[]" and width = 3
       and self = "NoisingCompressed (Rect (Vector2D 0 0) (Vector2D 2 6)) []"]
  by (simp add: py_repeat_def eval_nat_numeral)

end
